theory Spec2Isabelle
  imports Complex_Main
begin

section \<open>Data model\<close>

text \<open>
  The repository holds two thin clients of an external simulator: the Gym-style wrapper
  \<^verbatim>\<open>GymTHOR\<close> (\<^verbatim>\<open>ai2thor/gym.py\<close>) and the agent facade \<^verbatim>\<open>Jarvis\<close>
  (\<^verbatim>\<open>ai2thor/agents/jarvis.py\<close>). Python floats are idealised as rationals: the code
  only copies them, divides a frame by 255 and enumerates \<^verbatim>\<open>np.arange(0, 360, step)\<close>.
\<close>

datatype error =
    AssertionError
  | NotImplementedError
  | IndexError
  | KeyError
  | ZeroDivisionError
  | AttributeError

text \<open>A dictionary with the keys \<^verbatim>\<open>x\<close>, \<^verbatim>\<open>y\<close>, \<^verbatim>\<open>z\<close> (a position or a rotation).\<close>

record xyz =
  xyz_x :: rat
  xyz_y :: rat
  xyz_z :: rat

text \<open>\<^verbatim>\<open>event.metadata['agent']\<close>.\<close>

record agent_metadata =
  position :: xyz
  rotation :: xyz
  cameraHorizon :: rat

text \<open>\<^verbatim>\<open>event.metadata\<close>.\<close>

record metadata =
  agent :: agent_metadata
  reachablePositions :: "xyz list"
  lastActionSuccess :: bool

text \<open>An Event: the frame buffer (height by width by 3, values 0 to 255) and the metadata.\<close>

record event =
  frame :: "nat list list list"
  metadata :: metadata

text \<open>
  The requests the two clients send: \<^verbatim>\<open>controller.reset(scene)\<close>, and
  \<^verbatim>\<open>controller.step\<close> with the action \<^verbatim>\<open>GetReachablePositions\<close> or
  \<^verbatim>\<open>TeleportFull\<close>. A \<^verbatim>\<open>TeleportFull\<close> carries the position keywords
  \<^verbatim>\<open>x\<close>, \<^verbatim>\<open>y\<close>, \<^verbatim>\<open>z\<close>, the \<^verbatim>\<open>rotation\<close> dictionary and, when the caller
  passes one, the \<^verbatim>\<open>horizon\<close>.
\<close>

datatype call =
    ControllerReset string
  | GetReachablePositions
  | TeleportFull xyz xyz "rat option"

text \<open>
  Modelled from the spec: the Controller Proxy (\<^verbatim>\<open>ai2thor.controller.Controller\<close>) is
  not part of the sources. It accepts a request, runs one simulation tick and returns an
  Event, which it also keeps in its single \<^verbatim>\<open>last_event\<close> slot. The simulator is an
  opaque state \<open>'s\<close> with a response function given as a parameter; \<open>calls\<close> is the log of
  every request received (the call-count instrumentation of the spec).
\<close>

record 's controller =
  calls :: "call list"
  last_event :: "event option"
  sim :: 's

definition controller_call ::
  "(call \<Rightarrow> 's \<Rightarrow> event \<times> 's) \<Rightarrow> call \<Rightarrow> 's controller \<Rightarrow> event \<times> 's controller" where
  "controller_call respond c ctl =
     (let (ev, sim') = respond c (sim ctl)
      in (ev, ctl\<lparr>calls := calls ctl @ [c], last_event := Some ev, sim := sim'\<rparr>))"

definition controller_reset ::
  "(call \<Rightarrow> 's \<Rightarrow> event \<times> 's) \<Rightarrow> string \<Rightarrow> 's controller \<Rightarrow> event \<times> 's controller" where
  "controller_reset respond scene ctl = controller_call respond (ControllerReset scene) ctl"

definition controller_step ::
  "(call \<Rightarrow> 's \<Rightarrow> event \<times> 's) \<Rightarrow> call \<Rightarrow> 's controller \<Rightarrow> event \<times> 's controller" where
  "controller_step respond action ctl = controller_call respond action ctl"

text \<open>The requests a controller received between two of its states.\<close>

definition issued :: "'s controller \<Rightarrow> 's controller \<Rightarrow> call list" where
  "issued before after = drop (length (calls before)) (calls after)"

text \<open>Raising computations over a state: the outcome and the state left behind.\<close>

definition and_then ::
  "(error + 'a) \<times> 's \<Rightarrow> ('a \<Rightarrow> 's \<Rightarrow> (error + 'b) \<times> 's) \<Rightarrow> (error + 'b) \<times> 's" where
  "and_then r f = (case r of (Inl e, s) \<Rightarrow> (Inl e, s) | (Inr v, s) \<Rightarrow> f v s)"

section \<open>The Gym wrapper\<close>

text \<open>
  The attributes of a \<^verbatim>\<open>GymTHOR\<close> object. \<open>action_space\<close> is the property a concrete
  subclass supplies (\<open>None\<close>: the base class, whose property raises
  \<^verbatim>\<open>NotImplementedError\<close>). \<open>py_random\<close> and \<open>np_random\<close> are the states of the
  process-global generators of \<^verbatim>\<open>random\<close> and \<^verbatim>\<open>numpy.random\<close>.
\<close>

record ('a, 'g, 's) gym_thor =
  controller :: "'s controller"
  scene_names :: "string list"
  initial_positions :: "string \<rightharpoonup> xyz list"
  episode_already_done :: bool
  time_step :: int
  horizon :: int
  rotateStepDegrees :: rat
  action_space :: "'a set option"
  py_random :: 'g
  np_random :: 'g

text \<open>\<^verbatim>\<open>observation\<close>: the frame divided by 255.\<close>

definition observation :: "event \<Rightarrow> rat list list list" where
  "observation ev = map (map (map (\<lambda>v. rat_of_nat v / 255))) (frame ev)"

text \<open>
  \<^verbatim>\<open>step\<close>. The assertion reads the \<open>action_space\<close> property first. Past the sentinel
  return the method raises \<^verbatim>\<open>NotImplementedError\<close>; the statements after that
  \<^verbatim>\<open>raise\<close> are unreachable.
\<close>

definition step ::
  "'a \<Rightarrow> ('a, 'g, 's) gym_thor \<Rightarrow>
   (error + (rat list list list option \<times> rat option \<times> bool \<times> metadata option))
   \<times> ('a, 'g, 's) gym_thor" where
  "step action s =
     (case action_space s of
        None \<Rightarrow> (Inl NotImplementedError, s)
      | Some space \<Rightarrow>
          if action \<notin> space then (Inl AssertionError, s)
          else if episode_already_done s then (Inr (None, None, True, None), s)
          else (Inl NotImplementedError, s))"

text \<open>\<^verbatim>\<open>initial_scene_positions\<close>: the loop over \<^verbatim>\<open>self._scene_names\<close>, then the method.\<close>

fun initial_scene_positions_loop ::
  "(call \<Rightarrow> 's \<Rightarrow> event \<times> 's) \<Rightarrow> string list \<Rightarrow> (string \<rightharpoonup> xyz list) \<Rightarrow> 's controller
   \<Rightarrow> (string \<rightharpoonup> xyz list) \<times> 's controller" where
  "initial_scene_positions_loop respond [] reachable_positions ctl = (reachable_positions, ctl)"
| "initial_scene_positions_loop respond (scene # rest) reachable_positions ctl =
     (let (_, ctl1) = controller_reset respond scene ctl;
          (ev, ctl2) = controller_step respond GetReachablePositions ctl1
      in initial_scene_positions_loop respond rest
           (reachable_positions(scene \<mapsto> reachablePositions (metadata ev))) ctl2)"

definition initial_scene_positions ::
  "(call \<Rightarrow> 's \<Rightarrow> event \<times> 's) \<Rightarrow> ('a, 'g, 's) gym_thor
   \<Rightarrow> (string \<rightharpoonup> xyz list) \<times> ('a, 'g, 's) gym_thor" where
  "initial_scene_positions respond s =
     (let (reachable_positions, ctl) =
            initial_scene_positions_loop respond (scene_names s) Map.empty (controller s)
      in (reachable_positions, s\<lparr>controller := ctl\<rparr>))"

text \<open>\<^verbatim>\<open>_get_all_reachable_positions\<close>: its own loop, then the method.\<close>

fun get_all_reachable_positions_loop ::
  "(call \<Rightarrow> 's \<Rightarrow> event \<times> 's) \<Rightarrow> string list \<Rightarrow> (string \<rightharpoonup> xyz list) \<Rightarrow> 's controller
   \<Rightarrow> (string \<rightharpoonup> xyz list) \<times> 's controller" where
  "get_all_reachable_positions_loop respond [] reachable_positions ctl =
     (reachable_positions, ctl)"
| "get_all_reachable_positions_loop respond (scene # rest) reachable_positions ctl =
     (let (_, ctl1) = controller_reset respond scene ctl;
          (ev, ctl2) = controller_step respond GetReachablePositions ctl1
      in get_all_reachable_positions_loop respond rest
           (reachable_positions(scene \<mapsto> reachablePositions (metadata ev))) ctl2)"

definition get_all_reachable_positions ::
  "(call \<Rightarrow> 's \<Rightarrow> event \<times> 's) \<Rightarrow> ('a, 'g, 's) gym_thor
   \<Rightarrow> (string \<rightharpoonup> xyz list) \<times> ('a, 'g, 's) gym_thor" where
  "get_all_reachable_positions respond s =
     (let (reachable_positions, ctl) =
            get_all_reachable_positions_loop respond (scene_names s) Map.empty (controller s)
      in (reachable_positions, s\<lparr>controller := ctl\<rparr>))"

text \<open>
  \<^verbatim>\<open>random.choice(seq)\<close>: \<^verbatim>\<open>IndexError\<close> on an empty sequence, else the element at
  the index drawn from the generator. The generator's \<^verbatim>\<open>_randbelow\<close> is a parameter
  \<open>randbelow n g\<close> giving the index and the next generator state; an index out of range
  raises as Python's indexing does.
\<close>

definition random_choice ::
  "(nat \<Rightarrow> 'g \<Rightarrow> nat \<times> 'g) \<Rightarrow> 'b list \<Rightarrow> ('a, 'g, 's) gym_thor
   \<Rightarrow> (error + 'b) \<times> ('a, 'g, 's) gym_thor" where
  "random_choice randbelow seq s =
     (if seq = [] then (Inl IndexError, s)
      else (let (i, g) = randbelow (length seq) (py_random s)
            in (if i < length seq then Inr (seq ! i) else Inl IndexError,
                s\<lparr>py_random := g\<rparr>)))"

text \<open>
  \<^verbatim>\<open>np.arange(start, stop, step)\<close>: a zero step raises; otherwise the
  \<open>\<lceil>(stop - start) / step\<rceil>\<close> values \<open>start + k * step\<close> (none when that count is
  not positive).
\<close>

definition arange :: "rat \<Rightarrow> rat \<Rightarrow> rat \<Rightarrow> error + rat list" where
  "arange start stop stp =
     (if stp = 0 then Inl ZeroDivisionError
      else Inr (map (\<lambda>k. start + rat_of_nat k * stp)
                  [0 ..< nat \<lceil>(stop - start) / stp\<rceil>]))"

text \<open>\<^verbatim>\<open>self.initial_positions[scene]\<close>.\<close>

definition getitem :: "('k \<rightharpoonup> 'v) \<Rightarrow> 'k \<Rightarrow> error + 'v" where
  "getitem d k = (case d k of None \<Rightarrow> Inl KeyError | Some v \<Rightarrow> Inr v)"

text \<open>
  \<^verbatim>\<open>reset\<close>, statement by statement (the source indents the body unevenly; it is read
  as the one block it spells out). The flag is cleared first, so it stays cleared when a
  later statement raises; \<open>time_step\<close> is not assigned anywhere in the method.
\<close>

definition reset ::
  "(nat \<Rightarrow> 'g \<Rightarrow> nat \<times> 'g) \<Rightarrow> (call \<Rightarrow> 's \<Rightarrow> event \<times> 's) \<Rightarrow> ('a, 'g, 's) gym_thor
   \<Rightarrow> (error + rat list list list) \<times> ('a, 'g, 's) gym_thor" where
  "reset randbelow respond s0 =
     (let s1 = s0\<lparr>episode_already_done := False\<rparr>
      in and_then (random_choice randbelow (scene_names s1) s1) (\<lambda>scene s2.
         let s3 = s2\<lparr>controller := snd (controller_reset respond scene (controller s2))\<rparr>
         in and_then (getitem (initial_positions s3) scene, s3) (\<lambda>positions s4.
            and_then (random_choice randbelow positions s4) (\<lambda>rand_xyz_pos s5.
            and_then (arange 0 360 (rotateStepDegrees s5), s5) (\<lambda>yaws s6.
            and_then (random_choice randbelow yaws s6) (\<lambda>rand_yaw s7.
            let s8 = s7\<lparr>controller := snd (controller_step respond
                       (TeleportFull rand_xyz_pos
                          \<lparr>xyz_x = 0, xyz_y = rand_yaw, xyz_z = 0\<rparr> None)
                       (controller s7))\<rparr>
            in (case last_event (controller s8) of
                  None \<Rightarrow> (Inl AttributeError, s8)
                | Some ev \<Rightarrow> (Inr (observation ev), s8))))))))"

text \<open>
  \<^verbatim>\<open>_seed\<close>: seeds both process-global generators. The two seeding functions are
  parameters.
\<close>

definition seed ::
  "(int \<Rightarrow> 'g) \<Rightarrow> (int \<Rightarrow> 'g) \<Rightarrow> int \<Rightarrow> ('a, 'g, 's) gym_thor \<Rightarrow> ('a, 'g, 's) gym_thor" where
  "seed random_seed np_random_seed seed_num s =
     s\<lparr>py_random := random_seed seed_num, np_random := np_random_seed seed_num\<rparr>"

text \<open>
  Successive \<^verbatim>\<open>reset()\<close> calls with nothing else in between: the requests each one
  sent, that is the scene it chose and the position and yaw it teleported to.
\<close>

fun successive_resets ::
  "(nat \<Rightarrow> 'g \<Rightarrow> nat \<times> 'g) \<Rightarrow> (call \<Rightarrow> 's \<Rightarrow> event \<times> 's) \<Rightarrow> nat \<Rightarrow> ('a, 'g, 's) gym_thor
   \<Rightarrow> call list list" where
  "successive_resets randbelow respond 0 s = []"
| "successive_resets randbelow respond (Suc n) s =
     (let s' = snd (reset randbelow respond s)
      in issued (controller s) (controller s') # successive_resets randbelow respond n s')"

section \<open>The agent facade\<close>

text \<open>
  The attributes of a \<^verbatim>\<open>Jarvis\<close> object that its methods read. Both are set by the
  base class \<^verbatim>\<open>Agent\<close>, which is not part of the sources: \<open>base_controller\<close> is
  \<^verbatim>\<open>self._base_controller\<close> and \<open>agent_horizon\<close> is \<^verbatim>\<open>self.horizon\<close>, the horizon the
  facade last requested.
\<close>

record 's jarvis =
  base_controller :: "'s controller"
  agent_horizon :: rat

text \<open>The dictionary \<^verbatim>\<open>pose\<close> returns.\<close>

record pose_dict =
  pose_x :: rat
  pose_z :: rat
  pose_rot_y :: rat
  pose_horizon :: rat

text \<open>
  Reading \<^verbatim>\<open>self._base_controller.last_event\<close> and then its metadata; with no Event in
  the slot the attribute access on \<^verbatim>\<open>None\<close> raises.
\<close>

definition read_last_event :: "'s jarvis \<Rightarrow> (error + event) \<times> 's jarvis" where
  "read_last_event s =
     (case last_event (base_controller s) of
        None \<Rightarrow> (Inl AttributeError, s)
      | Some ev \<Rightarrow> (Inr ev, s))"

definition pos :: "'s jarvis \<Rightarrow> (error + rat \<times> rat) \<times> 's jarvis" where
  "pos s0 =
     and_then (read_last_event s0) (\<lambda>ev s1.
       let p = position (agent (metadata ev)) in (Inr (xyz_x p, xyz_z p), s1))"

definition rot :: "'s jarvis \<Rightarrow> (error + rat) \<times> 's jarvis" where
  "rot s0 =
     and_then (read_last_event s0) (\<lambda>ev s1.
       (Inr (xyz_y (rotation (agent (metadata ev)))), s1))"

definition pose :: "'s jarvis \<Rightarrow> (error + pose_dict) \<times> 's jarvis" where
  "pose s0 =
     and_then (read_last_event s0) (\<lambda>ev s1.
       let hor = cameraHorizon (agent (metadata ev))
       in and_then (pos s1) (\<lambda>p s2.
          and_then (rot s2) (\<lambda>r s3.
            (Inr \<lparr>pose_x = fst p, pose_z = snd p, pose_rot_y = r, pose_horizon = hor\<rparr>,
             s3))))"

text \<open>
  Modelled from the spec: \<^verbatim>\<open>Agent._step\<close> is not part of the sources. It sends the
  action to the controller and returns the success the simulator reports.
\<close>

definition agent_step ::
  "(call \<Rightarrow> 's \<Rightarrow> event \<times> 's) \<Rightarrow> call \<Rightarrow> 's jarvis \<Rightarrow> (error + bool) \<times> 's jarvis" where
  "agent_step respond action s =
     (let (ev, ctl) = controller_step respond action (base_controller s)
      in (Inr (lastActionSuccess (metadata ev)), s\<lparr>base_controller := ctl\<rparr>))"

text \<open>\<^verbatim>\<open>teleport\<close>: an omitted argument is \<open>None\<close>.\<close>

definition teleport ::
  "(call \<Rightarrow> 's \<Rightarrow> event \<times> 's) \<Rightarrow> rat option \<Rightarrow> rat option \<Rightarrow> rat option \<Rightarrow> rat option
   \<Rightarrow> 's jarvis \<Rightarrow> (error + bool) \<times> 's jarvis" where
  "teleport respond x z rot_y hor s0 =
     and_then (read_last_event s0) (\<lambda>ev s1.
       let p = position (agent (metadata ev));
           y = xyz_y p;
           x' = (case x of None \<Rightarrow> xyz_x p | Some v \<Rightarrow> v);
           z' = (case z of None \<Rightarrow> xyz_z p | Some v \<Rightarrow> v);
           r = rotation (agent (metadata ev));
           rot_x = xyz_x r;
           rot_z = xyz_z r;
           rot_y' = (case rot_y of None \<Rightarrow> xyz_y r | Some v \<Rightarrow> v);
           hor' = (case hor of None \<Rightarrow> agent_horizon s1 | Some v \<Rightarrow> v)
       in agent_step respond
            (TeleportFull \<lparr>xyz_x = x', xyz_y = y, xyz_z = z'\<rparr>
               \<lparr>xyz_x = rot_x, xyz_y = rot_y', xyz_z = rot_z\<rparr> (Some hor'))
            s1)"

section \<open>A concrete scene\<close>

text \<open>
  One scene, \<^verbatim>\<open>Kitchen\<close>, with two reachable positions and the default rotation step of
  90 degrees; a simulator that answers every request with the same Event and counts its
  ticks; a generator whose state is a number.
\<close>

definition kitchen_event :: event where
  "kitchen_event =
     \<lparr>frame = [[[0, 51, 255]]],
      metadata = \<lparr>agent = \<lparr>position = \<lparr>xyz_x = 1, xyz_y = 9 / 10, xyz_z = 2\<rparr>,
                           rotation = \<lparr>xyz_x = 5, xyz_y = 180, xyz_z = 7\<rparr>,
                           cameraHorizon = 0\<rparr>,
                  reachablePositions = [\<lparr>xyz_x = 0, xyz_y = 9 / 10, xyz_z = 0\<rparr>,
                                        \<lparr>xyz_x = 1, xyz_y = 9 / 10, xyz_z = 0\<rparr>],
                  lastActionSuccess = True\<rparr>\<rparr>"

definition kitchen_respond :: "call \<Rightarrow> nat \<Rightarrow> event \<times> nat" where
  "kitchen_respond c ticks = (kitchen_event, Suc ticks)"

definition dark_respond :: "call \<Rightarrow> bool \<Rightarrow> event \<times> bool" where
  "dark_respond c b = (kitchen_event\<lparr>frame := []\<rparr>, \<not> b)"

definition doubling_randbelow :: "nat \<Rightarrow> nat \<Rightarrow> nat \<times> nat" where
  "doubling_randbelow n g = (g mod n, 2 * g + 1)"

definition kitchen_positions :: "string \<rightharpoonup> xyz list" where
  "kitchen_positions =
     [''Kitchen'' \<mapsto> [\<lparr>xyz_x = 0, xyz_y = 9 / 10, xyz_z = 0\<rparr>,
                      \<lparr>xyz_x = 1, xyz_y = 9 / 10, xyz_z = 0\<rparr>]]"

text \<open>A wrapper whose previous episode ended after five steps.\<close>

definition kitchen_env :: "(nat, nat, nat) gym_thor" where
  "kitchen_env =
     \<lparr>controller = \<lparr>calls = [], last_event = Some kitchen_event, sim = 0\<rparr>,
      scene_names = [''Kitchen''],
      initial_positions = kitchen_positions,
      episode_already_done = True,
      time_step = 5,
      horizon = 200,
      rotateStepDegrees = 90,
      action_space = Some {0, 1, 2, 3},
      py_random = 42,
      np_random = 42\<rparr>"

text \<open>The same configuration in another process: other simulator, other episode state.\<close>

definition dark_env :: "(nat, nat, bool) gym_thor" where
  "dark_env =
     \<lparr>controller = \<lparr>calls = [GetReachablePositions], last_event = None, sim = False\<rparr>,
      scene_names = [''Kitchen''],
      initial_positions = kitchen_positions,
      episode_already_done = False,
      time_step = 0,
      horizon = 10,
      rotateStepDegrees = 90,
      action_space = None,
      py_random = 7,
      np_random = 8\<rparr>"

text \<open>
  A facade whose own \<^verbatim>\<open>horizon\<close> attribute is 30 while the camera horizon of the
  latest Event is 0.
\<close>

definition tilted_agent :: "nat jarvis" where
  "tilted_agent =
     \<lparr>base_controller = \<lparr>calls = [], last_event = Some kitchen_event, sim = 0\<rparr>,
      agent_horizon = 30\<rparr>"

section \<open>Auxiliary facts\<close>

lemma and_then_Inl [simp]: "and_then (Inl e, s) f = (Inl e, s)"
  by (simp add: and_then_def)

lemma and_then_Inr [simp]: "and_then (Inr v, s) f = f v s"
  by (simp add: and_then_def)

lemma calls_controller_call [simp]:
  "calls (snd (controller_call respond a c)) = calls c @ [a]"
  by (simp add: controller_call_def split_def Let_def)

lemma issued_append [simp]: "calls c' = calls c @ cs \<Longrightarrow> issued c c' = cs"
  by (simp add: issued_def)

lemma issued_same [simp]: "issued c c = []"
  by (simp add: issued_def)


lemma arange_90: "arange 0 360 90 = Inr [0, 90, 180, 270]"
  by (simp add: arange_def upt_conv_Cons)

text \<open>What a \<^verbatim>\<open>reset\<close> can have sent to the controller, path by path.\<close>

lemma reset_calls_cases:
  "calls (controller (snd (reset rb respond s))) = calls (controller s) \<or>
   (\<exists>scene \<in> set (scene_names s).
      calls (controller (snd (reset rb respond s))) =
        calls (controller s) @ [ControllerReset scene] \<or>
      (\<exists>ps yaws. initial_positions s scene = Some ps \<and>
         arange 0 360 (rotateStepDegrees s) = Inr yaws \<and>
         (\<exists>p \<in> set ps. \<exists>yaw \<in> set yaws.
            calls (controller (snd (reset rb respond s))) =
              calls (controller s) @
                [ControllerReset scene,
                 TeleportFull p \<lparr>xyz_x = 0, xyz_y = yaw, xyz_z = 0\<rparr> None])))"
  unfolding reset_def random_choice_def and_then_def Let_def getitem_def
    controller_reset_def controller_step_def
  by (auto simp: split_def split: sum.splits option.splits if_splits
        intro!: bexI[where x = "scene_names s ! fst (rb (length (scene_names s)) (py_random s))"])

lemma reset_issued_cases:
  "issued (controller s) (controller (snd (reset rb respond s))) = [] \<or>
   (\<exists>scene \<in> set (scene_names s).
      issued (controller s) (controller (snd (reset rb respond s))) = [ControllerReset scene] \<or>
      (\<exists>ps yaws. initial_positions s scene = Some ps \<and>
         arange 0 360 (rotateStepDegrees s) = Inr yaws \<and>
         (\<exists>p \<in> set ps. \<exists>yaw \<in> set yaws.
            issued (controller s) (controller (snd (reset rb respond s))) =
              [ControllerReset scene,
               TeleportFull p \<lparr>xyz_x = 0, xyz_y = yaw, xyz_z = 0\<rparr> None])))"
proof -
  let ?c' = "controller (snd (reset rb respond s))"
  have same: "calls ?c' = calls (controller s) \<Longrightarrow> issued (controller s) ?c' = []"
    by (simp add: issued_def)
  have more: "\<And>cs. calls ?c' = calls (controller s) @ cs \<Longrightarrow> issued (controller s) ?c' = cs"
    by (simp add: issued_def)
  from reset_calls_cases[of rb respond s] show ?thesis
    by (metis same more)
qed

lemma reset_config:
  "scene_names (snd (reset rb respond s)) = scene_names s \<and>
   initial_positions (snd (reset rb respond s)) = initial_positions s \<and>
   rotateStepDegrees (snd (reset rb respond s)) = rotateStepDegrees s"
  unfolding reset_def random_choice_def and_then_def Let_def getitem_def
  by (auto simp: split_def split: sum.splits option.splits if_splits)

text \<open>
  One \<^verbatim>\<open>reset\<close> in two wrappers that agree on the scene list, the position table, the
  rotation step and the generator state: the same requests and the same next generator
  state, whatever the two simulators answer.
\<close>

lemma reset_same_draws:
  fixes s1 :: "('a, 'g, 's) gym_thor" and s2 :: "('b, 'g, 't) gym_thor"
  assumes "scene_names s1 = scene_names s2"
    and "initial_positions s1 = initial_positions s2"
    and "rotateStepDegrees s1 = rotateStepDegrees s2"
    and "py_random s1 = py_random s2"
  shows "issued (controller s1) (controller (snd (reset rb respond1 s1))) =
         issued (controller s2) (controller (snd (reset rb respond2 s2))) \<and>
         py_random (snd (reset rb respond1 s1)) = py_random (snd (reset rb respond2 s2))"
  using assms
  unfolding reset_def random_choice_def and_then_def Let_def getitem_def
    controller_reset_def controller_step_def issued_def
  by (auto simp: split_def split: sum.splits option.splits if_splits)

lemma successive_resets_same:
  fixes s1 :: "('a, 'g, 's) gym_thor" and s2 :: "('b, 'g, 't) gym_thor"
  assumes "scene_names s1 = scene_names s2"
    and "initial_positions s1 = initial_positions s2"
    and "rotateStepDegrees s1 = rotateStepDegrees s2"
    and "py_random s1 = py_random s2"
  shows "successive_resets rb respond1 n s1 = successive_resets rb respond2 n s2"
  using assms
proof (induction n arbitrary: s1 s2)
  case 0
  show ?case by simp
next
  case (Suc n)
  let ?t1 = "snd (reset rb respond1 s1)" and ?t2 = "snd (reset rb respond2 s2)"
  from Suc.prems have draws:
    "issued (controller s1) (controller ?t1) = issued (controller s2) (controller ?t2)"
    "py_random ?t1 = py_random ?t2"
    using reset_same_draws[of s1 s2 rb respond1 respond2] by simp_all
  from Suc.prems have config:
    "scene_names ?t1 = scene_names ?t2"
    "initial_positions ?t1 = initial_positions ?t2"
    "rotateStepDegrees ?t1 = rotateStepDegrees ?t2"
    by (simp_all add: reset_config)
  from Suc.IH[OF config draws(2)] draws(1) show ?case
    by (simp add: Let_def)
qed

text \<open>The two loops over the scene names compute the same.\<close>

lemma loops_equal:
  "initial_scene_positions_loop respond scenes rp ctl =
   get_all_reachable_positions_loop respond scenes rp ctl"
  by (induction scenes arbitrary: rp ctl) (simp_all add: split_def Let_def)

text \<open>The concrete wrapper, reset once.\<close>

lemma reset_kitchen:
  "reset doubling_randbelow kitchen_respond kitchen_env =
     (Inr [[[0, 1 / 5, 1]]],
      kitchen_env\<lparr>controller :=
                    \<lparr>calls = [ControllerReset ''Kitchen'',
                              TeleportFull \<lparr>xyz_x = 1, xyz_y = 9 / 10, xyz_z = 0\<rparr>
                                \<lparr>xyz_x = 0, xyz_y = 270, xyz_z = 0\<rparr> None],
                     last_event = Some kitchen_event, sim = 2\<rparr>,
                  episode_already_done := False,
                  py_random := 343\<rparr>)"
proof -
  have four: "Suc (Suc (Suc (Suc 0))) = 4" by simp
  show ?thesis
    by (simp add: reset_def kitchen_env_def kitchen_positions_def random_choice_def
        doubling_randbelow_def Let_def getitem_def controller_reset_def controller_step_def
        controller_call_def kitchen_respond_def arange_90 observation_def kitchen_event_def
        numeral_2_eq_2[symmetric] four)
qed

lemma pose_tilted:
  "pose tilted_agent =
     (Inr \<lparr>pose_x = 1, pose_z = 2, pose_rot_y = 180, pose_horizon = 0\<rparr>, tilted_agent)"
  by (simp add: pose_def pos_def rot_def read_last_event_def tilted_agent_def
      kitchen_event_def Let_def)

section \<open>The episode lifecycle\<close>

text \<open>
  C1. The claim: after \<^verbatim>\<open>reset()\<close> the done flag is false and \<open>time_step\<close> is 0,
  whatever the previous episode left. The method clears the flag and never assigns
  \<open>time_step\<close>: on the wrapper whose previous episode ended after five steps, the reset
  succeeds, the flag is cleared and \<open>time_step\<close> is still 5.
\<close>

theorem reset_carries_time_step_over:
  "fst (reset doubling_randbelow kitchen_respond kitchen_env) = Inr [[[0, 1 / 5, 1]]] \<and>
   episode_already_done kitchen_env \<and>
   \<not> episode_already_done (snd (reset doubling_randbelow kitchen_respond kitchen_env)) \<and>
   time_step kitchen_env = 5 \<and>
   time_step (snd (reset doubling_randbelow kitchen_respond kitchen_env)) = 5"
  by (simp add: reset_kitchen) (simp add: kitchen_env_def)

text \<open>
  C2. For an action of the action space, \<^verbatim>\<open>step\<close> on an episode that is already done
  returns exactly \<open>(None, None, True, None)\<close> and leaves the whole wrapper as it was: the
  counters, the flag and the controller with its request log, so nothing was sent.
\<close>

theorem step_after_done:
  assumes "action_space s = Some space" and "action \<in> space" and "episode_already_done s"
  shows "step action s = (Inr (None, None, True, None), s)"
  using assms by (simp add: step_def)

theorem step_after_done_witness:
  "action_space kitchen_env = Some {0, 1, 2, 3} \<and> (2::nat) \<in> {0, 1, 2, 3} \<and>
   episode_already_done kitchen_env \<and>
   step 2 kitchen_env = (Inr (None, None, True, None), kitchen_env)"
proof -
  have a: "action_space kitchen_env = Some {0, 1, 2, 3}" by (simp add: kitchen_env_def)
  have b: "(2::nat) \<in> {0, 1, 2, 3}" by simp
  have c: "episode_already_done kitchen_env" by (simp add: kitchen_env_def)
  from step_after_done[OF a b c] a b c show ?thesis by simp
qed

text \<open>
  C3, as the spec states it: on an episode that is not done, \<^verbatim>\<open>step\<close> dispatches the
  action, adds 1 to \<open>time_step\<close> and returns a tuple. On the concrete wrapper with the
  flag cleared it returns no tuple, sends nothing and leaves \<open>time_step\<close> at 5.
\<close>

theorem step_dispatch_counterexample:
  "action_space (kitchen_env\<lparr>episode_already_done := False\<rparr>) = Some {0, 1, 2, 3} \<and>
   (1::nat) \<in> {0, 1, 2, 3} \<and>
   \<not> episode_already_done (kitchen_env\<lparr>episode_already_done := False\<rparr>) \<and>
   fst (step 1 (kitchen_env\<lparr>episode_already_done := False\<rparr>)) = Inl NotImplementedError \<and>
   time_step (snd (step 1 (kitchen_env\<lparr>episode_already_done := False\<rparr>))) \<noteq>
     time_step (kitchen_env\<lparr>episode_already_done := False\<rparr>) + 1 \<and>
   issued (controller (kitchen_env\<lparr>episode_already_done := False\<rparr>))
     (controller (snd (step 1 (kitchen_env\<lparr>episode_already_done := False\<rparr>)))) = []"
  by (simp add: step_def kitchen_env_def)

text \<open>
  C3, amended: for an action of the action space, \<^verbatim>\<open>step\<close> on an episode that is not
  done raises \<^verbatim>\<open>NotImplementedError\<close> and leaves the whole wrapper as it was: nothing
  is sent to the controller and \<open>time_step\<close> keeps its value.
\<close>

theorem step_not_done_unimplemented:
  assumes "action_space s = Some space" and "action \<in> space" and "\<not> episode_already_done s"
  shows "step action s = (Inl NotImplementedError, s)"
  using assms by (simp add: step_def)

theorem step_not_done_unimplemented_witness:
  "action_space (kitchen_env\<lparr>episode_already_done := False\<rparr>) = Some {0, 1, 2, 3} \<and>
   (1::nat) \<in> {0, 1, 2, 3} \<and>
   \<not> episode_already_done (kitchen_env\<lparr>episode_already_done := False\<rparr>) \<and>
   step 1 (kitchen_env\<lparr>episode_already_done := False\<rparr>) =
     (Inl NotImplementedError, kitchen_env\<lparr>episode_already_done := False\<rparr>)"
proof -
  let ?s = "kitchen_env\<lparr>episode_already_done := False\<rparr>"
  have a: "action_space ?s = Some {0, 1, 2, 3}" by (simp add: kitchen_env_def)
  have b: "(1::nat) \<in> {0, 1, 2, 3}" by simp
  have c: "\<not> episode_already_done ?s" by simp
  from step_not_done_unimplemented[OF a b c] a b c show ?thesis by simp
qed

text \<open>
  C6. For an action outside the declared action space, \<^verbatim>\<open>step\<close> fails its assertion
  and leaves the whole wrapper as it was, the controller and its request log included.
\<close>

theorem step_invalid_action:
  assumes "action_space s = Some space" and "action \<notin> space"
  shows "step action s = (Inl AssertionError, s)"
  using assms by (simp add: step_def)

theorem step_invalid_action_witness:
  "action_space kitchen_env = Some {0, 1, 2, 3} \<and> (4::nat) \<notin> {0, 1, 2, 3} \<and>
   step 4 kitchen_env = (Inl AssertionError, kitchen_env)"
proof -
  have a: "action_space kitchen_env = Some {0, 1, 2, 3}" by (simp add: kitchen_env_def)
  have b: "(4::nat) \<notin> {0, 1, 2, 3}" by simp
  from step_invalid_action[OF a b] a b show ?thesis by simp
qed

section \<open>Where a reset puts the agent\<close>



text \<open>
  C9. Every \<^verbatim>\<open>TeleportFull\<close> that \<^verbatim>\<open>reset\<close> sends has the rotation components
  \<open>x\<close> and \<open>z\<close> equal to 0, whatever the rotation of the latest Event before the reset.
\<close>

theorem reset_teleport_rotation:
  assumes "TeleportFull p r h \<in> set (issued (controller s) (controller (snd (reset rb respond s))))"
  shows "xyz_x r = 0 \<and> xyz_z r = 0"
  using reset_issued_cases[of s rb respond] assms by auto

theorem reset_teleport_rotation_witness:
  "last_event (controller kitchen_env) = Some kitchen_event \<and>
   xyz_x (rotation (agent (metadata kitchen_event))) = 5 \<and>
   xyz_z (rotation (agent (metadata kitchen_event))) = 7 \<and>
   TeleportFull \<lparr>xyz_x = 1, xyz_y = 9 / 10, xyz_z = 0\<rparr> \<lparr>xyz_x = 0, xyz_y = 270, xyz_z = 0\<rparr> None
     \<in> set (issued (controller kitchen_env)
              (controller (snd (reset doubling_randbelow kitchen_respond kitchen_env)))) \<and>
   xyz_x \<lparr>xyz_x = 0, xyz_y = 270, xyz_z = (0::rat)\<rparr> = 0 \<and>
   xyz_z \<lparr>xyz_x = 0, xyz_y = 270, xyz_z = (0::rat)\<rparr> = 0"
proof -
  let ?p = "\<lparr>xyz_x = 1, xyz_y = 9 / 10, xyz_z = 0\<rparr>"
  let ?r = "\<lparr>xyz_x = 0, xyz_y = 270, xyz_z = 0\<rparr>"
  have sent: "TeleportFull ?p ?r None
     \<in> set (issued (controller kitchen_env)
              (controller (snd (reset doubling_randbelow kitchen_respond kitchen_env))))"
    by (simp add: reset_kitchen) (simp add: kitchen_env_def)
  have before: "last_event (controller kitchen_env) = Some kitchen_event"
    "xyz_x (rotation (agent (metadata kitchen_event))) = 5"
    "xyz_z (rotation (agent (metadata kitchen_event))) = 7"
    by (simp_all add: kitchen_env_def kitchen_event_def)
  from reset_teleport_rotation[OF sent] sent before show ?thesis by simp
qed

text \<open>
  C7. Two wrappers with the same scene list, position table and rotation step, seeded with
  the same integer, send the same requests in each of their successive resets, that is
  they choose the same scenes, positions and yaws, whatever their episode state and
  whatever their simulators answer.
\<close>

theorem seeded_resets_deterministic:
  fixes s1 :: "('a, 'g, 's) gym_thor" and s2 :: "('b, 'g, 't) gym_thor"
  assumes "scene_names s1 = scene_names s2"
    and "initial_positions s1 = initial_positions s2"
    and "rotateStepDegrees s1 = rotateStepDegrees s2"
  shows "successive_resets rb respond1 n (seed random_seed np_random_seed seed_num s1) =
         successive_resets rb respond2 n (seed random_seed np_random_seed seed_num s2)"
  using assms by (intro successive_resets_same) (simp_all add: seed_def)

theorem seeded_resets_deterministic_witness:
  "scene_names kitchen_env = scene_names dark_env \<and>
   initial_positions kitchen_env = initial_positions dark_env \<and>
   rotateStepDegrees kitchen_env = rotateStepDegrees dark_env \<and>
   successive_resets doubling_randbelow kitchen_respond 3 (seed nat nat 42 kitchen_env) =
   successive_resets doubling_randbelow dark_respond 3 (seed nat nat 42 dark_env)"
proof -
  have a: "scene_names kitchen_env = scene_names dark_env"
    by (simp add: kitchen_env_def dark_env_def)
  have b: "initial_positions kitchen_env = initial_positions dark_env"
    by (simp add: kitchen_env_def dark_env_def)
  have c: "rotateStepDegrees kitchen_env = rotateStepDegrees dark_env"
    by (simp add: kitchen_env_def dark_env_def)
  from seeded_resets_deterministic[OF a b c] a b c show ?thesis by simp
qed

text \<open>
  C10. \<^verbatim>\<open>initial_scene_positions\<close> and \<^verbatim>\<open>_get_all_reachable_positions\<close> return the same
  dictionary and leave the same wrapper and controller behind, request log included.
\<close>

theorem initial_scene_positions_eq_get_all_reachable_positions:
  "initial_scene_positions respond s = get_all_reachable_positions respond s"
  by (simp add: initial_scene_positions_def get_all_reachable_positions_def loops_equal)

section \<open>The facade\<close>

text \<open>
  C8. \<^verbatim>\<open>pose\<close> leaves the facade and its controller as they were, request log included,
  and when the controller holds a latest Event all four fields of the record are read
  from that one Event.
\<close>

theorem pose_single_snapshot:
  "snd (pose s) = s \<and>
   (\<forall>ev. last_event (base_controller s) = Some ev \<longrightarrow>
      fst (pose s) =
        Inr \<lparr>pose_x = xyz_x (position (agent (metadata ev))),
             pose_z = xyz_z (position (agent (metadata ev))),
             pose_rot_y = xyz_y (rotation (agent (metadata ev))),
             pose_horizon = cameraHorizon (agent (metadata ev))\<rparr>)"
  by (cases "last_event (base_controller s)")
    (simp_all add: pose_def pos_def rot_def read_last_event_def Let_def)

theorem pose_single_snapshot_witness:
  "last_event (base_controller tilted_agent) = Some kitchen_event \<and>
   snd (pose tilted_agent) = tilted_agent \<and>
   fst (pose tilted_agent) =
     Inr \<lparr>pose_x = xyz_x (position (agent (metadata kitchen_event))),
          pose_z = xyz_z (position (agent (metadata kitchen_event))),
          pose_rot_y = xyz_y (rotation (agent (metadata kitchen_event))),
          pose_horizon = cameraHorizon (agent (metadata kitchen_event))\<rparr>"
proof -
  have a: "last_event (base_controller tilted_agent) = Some kitchen_event"
    by (simp add: tilted_agent_def)
  from pose_single_snapshot[of tilted_agent] a show ?thesis by simp
qed

text \<open>
  C4, as the spec states it: every omitted field of the \<^verbatim>\<open>TeleportFull\<close> request equals
  the field of the pose recorded just before. On the facade whose own horizon attribute is
  30 the pose has horizon 0, and a teleport with every argument omitted requests
  horizon 30.
\<close>

theorem teleport_horizon_counterexample:
  "fst (pose tilted_agent) =
     Inr \<lparr>pose_x = 1, pose_z = 2, pose_rot_y = 180, pose_horizon = 0\<rparr> \<and>
   issued (base_controller tilted_agent)
     (base_controller (snd (teleport kitchen_respond None None None None tilted_agent))) =
     [TeleportFull \<lparr>xyz_x = 1, xyz_y = 9 / 10, xyz_z = 2\<rparr>
        \<lparr>xyz_x = 5, xyz_y = 180, xyz_z = 7\<rparr> (Some 30)] \<and>
   (30::rat) \<noteq> pose_horizon \<lparr>pose_x = 1, pose_z = 2, pose_rot_y = 180, pose_horizon = 0\<rparr>"
  by (simp add: pose_tilted)
    (simp add: teleport_def read_last_event_def agent_step_def controller_step_def
      controller_call_def kitchen_respond_def tilted_agent_def kitchen_event_def issued_def Let_def)

text \<open>
  C4, amended: a teleport on a facade whose controller holds a latest Event sends exactly
  one request, a \<^verbatim>\<open>TeleportFull\<close> in which an omitted \<open>x\<close>, \<open>z\<close> or \<open>rot_y\<close> equals
  that field of the pose recorded just before, an omitted horizon equals the facade's own
  \<^verbatim>\<open>horizon\<close> attribute, and \<open>y\<close> and the rotation components \<open>x\<close> and \<open>z\<close> are those
  of the latest Event.
\<close>

theorem teleport_defaults:
  assumes "last_event (base_controller s) = Some ev" and "fst (pose s) = Inr p"
  shows "issued (base_controller s)
           (base_controller (snd (teleport respond x z rot_y hor s))) =
         [TeleportFull
            \<lparr>xyz_x = (case x of None \<Rightarrow> pose_x p | Some v \<Rightarrow> v),
             xyz_y = xyz_y (position (agent (metadata ev))),
             xyz_z = (case z of None \<Rightarrow> pose_z p | Some v \<Rightarrow> v)\<rparr>
            \<lparr>xyz_x = xyz_x (rotation (agent (metadata ev))),
             xyz_y = (case rot_y of None \<Rightarrow> pose_rot_y p | Some v \<Rightarrow> v),
             xyz_z = xyz_z (rotation (agent (metadata ev)))\<rparr>
            (Some (case hor of None \<Rightarrow> agent_horizon s | Some v \<Rightarrow> v))]"
proof -
  from assms have p: "p = \<lparr>pose_x = xyz_x (position (agent (metadata ev))),
             pose_z = xyz_z (position (agent (metadata ev))),
             pose_rot_y = xyz_y (rotation (agent (metadata ev))),
             pose_horizon = cameraHorizon (agent (metadata ev))\<rparr>"
    by (simp add: pose_def pos_def rot_def read_last_event_def Let_def)
  from assms(1) show ?thesis
    unfolding p
    by (simp add: teleport_def read_last_event_def agent_step_def controller_step_def
        controller_call_def issued_def Let_def split_def split: option.splits)
qed

theorem teleport_defaults_witness:
  "last_event (base_controller tilted_agent) = Some kitchen_event \<and>
   fst (pose tilted_agent) =
     Inr \<lparr>pose_x = 1, pose_z = 2, pose_rot_y = 180, pose_horizon = 0\<rparr> \<and>
   issued (base_controller tilted_agent)
     (base_controller (snd (teleport kitchen_respond None (Some 4) None None tilted_agent))) =
     [TeleportFull \<lparr>xyz_x = 1, xyz_y = 9 / 10, xyz_z = 4\<rparr>
        \<lparr>xyz_x = 5, xyz_y = 180, xyz_z = 7\<rparr> (Some 30)]"
proof -
  have a: "last_event (base_controller tilted_agent) = Some kitchen_event"
    by (simp add: tilted_agent_def)
  have b: "fst (pose tilted_agent) =
     Inr \<lparr>pose_x = 1, pose_z = 2, pose_rot_y = 180, pose_horizon = 0\<rparr>"
    by (simp add: pose_tilted)
  have c: "agent_horizon tilted_agent = 30" by (simp add: tilted_agent_def)
  from teleport_defaults[OF a b, of kitchen_respond None "Some 4" None None] a b c
  show ?thesis by (simp add: kitchen_event_def)
qed

end
